theory Spec2Isabelle
  imports Main "HOL-Library.Sublist"
begin

section \<open>Values, types and exceptions of the embedding\<close>

text \<open>
  The module \<open>minizinc/CLI/driver.py\<close> holds one free function, \<open>to_python_type\<close>, and
  the class \<open>CLIDriver\<close>. Python \<open>str\<close> and \<open>bytes\<close> values are both character lists.
\<close>

type_synonym bytes = string
type_synonym path = string

text \<open>
  What \<open>json.loads\<close> puts into a dictionary, floats left out (they are not modelled).
  A dictionary value keeps its items as an association list.
\<close>

datatype pyval =
    JNull
  | JBool bool
  | JInt int
  | JStr string
  | JList "pyval list"
  | JDict "(string \<times> pyval) list"

text \<open>The \<open>typing\<close> objects that \<open>to_python_type\<close> builds.\<close>

datatype pytype =
    PyBool
  | PyFloat
  | PyInt
  | PyRange
  | PySet pytype
  | PyUnion "pytype list"
  | PyList pytype

text \<open>
  The exceptions that leave the functions of the module. \<open>ParsedError\<close> carries what the
  collaborator \<open>parse_error\<close> returned; \<open>TimeoutExpired\<close> and \<open>OSError\<close> are raised by
  the process primitives and carry the command (and the timeout) they were given.
\<close>

datatype ('pe, 'fl) exn =
    AssertionError
  | KeyError string
  | TypeError
  | AttributeError
  | UnicodeDecodeError
  | ConfigurationError string
  | ParsedError 'pe
  | TimeoutExpired "string list" 'fl
  | OSError string

text \<open>
  A call returns a value, raises, or never comes back (\<open>Blocks\<close>: a child process that
  never exits, waited for without a time limit).
\<close>

datatype ('e, 'a) outcome = Returns 'a | Raises 'e | Blocks

section \<open>\<open>to_python_type\<close>\<close>

text \<open>Truth value of a dictionary entry, as \<open>if mzn_type.get("set", False)\<close> tests it.\<close>

fun truthy :: "pyval \<Rightarrow> bool" where
  "truthy JNull = False"
| "truthy (JBool b) = b"
| "truthy (JInt n) = (n \<noteq> 0)"
| "truthy (JStr s) = (s \<noteq> [])"
| "truthy (JList xs) = (xs \<noteq> [])"
| "truthy (JDict kvs) = (kvs \<noteq> [])"

text \<open>
  The values that \<open>dim >= 1\<close> and \<open>dim -= 1\<close> accept: integers, and booleans as the
  integers 0 and 1. Every other value makes the comparison raise \<open>TypeError\<close>.
\<close>

fun as_int :: "pyval \<Rightarrow> int option" where
  "as_int (JInt n) = Some n"
| "as_int (JBool b) = Some (if b then 1 else 0)"
| "as_int _ = None"

text \<open>The loop \<open>while dim >= 1: pytype = List[pytype]; dim -= 1\<close>.\<close>

function list_wrap :: "int \<Rightarrow> pytype \<Rightarrow> pytype" where
  "list_wrap dim pytype =
     (if dim \<ge> 1 then list_wrap (dim - 1) (PyList pytype) else pytype)"
  by pat_completeness auto
termination
  by (relation "measure (\<lambda>(dim, _). nat dim)") auto

declare list_wrap.simps [simp del]

text \<open>The \<open>if\<close>/\<open>elif\<close> chain on the base type; the second component says whether the
  \<open>else\<close> branch, which warns, was taken.\<close>

definition base_type :: "pyval \<Rightarrow> pytype \<times> bool" where
  "base_type basetype =
     (if basetype = JStr ''bool'' then (PyBool, False)
      else if basetype = JStr ''float'' then (PyFloat, False)
      else if basetype = JStr ''int'' then (PyInt, False)
      else (PyInt, True))"

definition warning_text :: "string \<Rightarrow> string" where
  "warning_text shown =
     ''Unable to determine minizinc type `'' @ shown @ ''` assuming integer type''"

definition set_wrap :: "pytype \<Rightarrow> pytype" where
  "set_wrap pytype =
     (if pytype = PyInt then PyUnion [PySet PyInt, PyRange] else PySet pytype)"

text \<open>
  \<open>to_python_type fmt mzn_type\<close> returns the outcome and the \<open>FutureWarning\<close> messages
  emitted, in order. \<open>fmt\<close> is the conversion that the f-string applies to the base type.
\<close>

definition to_python_type ::
  "(pyval \<Rightarrow> string) \<Rightarrow> (string \<rightharpoonup> pyval) \<Rightarrow> (('pe, 'fl) exn, pytype) outcome \<times> string list"
where
  "to_python_type fmt mzn_type =
     (case mzn_type ''type'' of
        None \<Rightarrow> (Raises (KeyError ''type''), [])
      | Some basetype \<Rightarrow>
          (let (pytype0, warned) = base_type basetype;
               warnings = (if warned then [warning_text (fmt basetype)] else []);
               pytype1 = (if truthy (case mzn_type ''set'' of None \<Rightarrow> JBool False | Some v \<Rightarrow> v)
                          then set_wrap pytype0 else pytype0)
           in case as_int (case mzn_type ''dim'' of None \<Rightarrow> JInt 0 | Some v \<Rightarrow> v) of
                None \<Rightarrow> (Raises TypeError, warnings)
              | Some dim \<Rightarrow> (Returns (list_wrap dim pytype1), warnings)))"

text \<open>The base types that the \<open>if\<close>/\<open>elif\<close> chain recognises.\<close>

definition known_base :: "pyval \<Rightarrow> bool" where
  "known_base v = (v = JStr ''bool'' \<or> v = JStr ''float'' \<or> v = JStr ''int'')"

section \<open>The command-line driver\<close>

subsection \<open>Collaborators and the process primitives\<close>

text \<open>
  Modelled from the spec: the class \<open>Solver\<close> is not part of this module. Its accessor
  \<open>configuration()\<close> is a scoped resource that yields a string token; entering and leaving
  the scope are recorded as events, and leaving it does not swallow an exception.
\<close>

datatype solver = Solver (configuration: string)

text \<open>
  An element of the argument list: a \<open>str\<close> object, which \<open>str(arg)\<close> leaves as it is,
  or any other object, converted by its own \<open>__str__\<close>.
\<close>

datatype 'a arg = Str string | Obj 'a

text \<open>A \<open>timedelta\<close> is known by what \<open>total_seconds()\<close> returns.\<close>

datatype 'fl timedelta = Timedelta (total_seconds: 'fl)

datatype stream = PIPE

text \<open>The arguments of one call of \<open>subprocess.run\<close>.\<close>

record 'fl run_call =
  rc_args :: "string list"
  rc_stdin :: "stream option"
  rc_stdout :: "stream option"
  rc_stderr :: "stream option"
  rc_timeout :: "'fl option"

text \<open>The arguments of one call of \<open>asyncio.create_subprocess_exec\<close>.\<close>

record exec_call =
  ec_program :: string
  ec_args :: "string list"
  ec_stdin :: "stream option"
  ec_stdout :: "stream option"
  ec_stderr :: "stream option"

text \<open>The \<open>CompletedProcess\<close> that \<open>subprocess.run\<close> returns.\<close>

record completed_process =
  returncode :: int
  stdout :: bytes
  stderr :: bytes

text \<open>What a call of the driver does to the outside, in order.\<close>

datatype 'fl event =
    ConfEnter solver
  | ConfExit solver
  | Debug string
  | SubprocessRun "'fl run_call"
  | SubprocessExec exec_call

text \<open>
  Everything the driver takes from outside the module: the file system at construction time,
  the initialiser of the base class \<open>Driver\<close>, \<open>__str__\<close> of the argument objects and of a
  float, the two process primitives, the collaborator \<open>parse_error\<close>, \<open>bytes.decode\<close>
  (\<open>None\<close> where the bytes are not valid UTF-8) and the constant
  \<open>minizinc.driver.required_version\<close>.
\<close>

record driver =
  executable :: path

record ('a, 'fl, 'pe, 'proc) env =
  path_exists :: "path \<Rightarrow> bool"
  driver_init :: "driver \<Rightarrow> (('pe, 'fl) exn, driver) outcome"
  obj_str :: "'a \<Rightarrow> string"
  float_str :: "'fl \<Rightarrow> string"
  subprocess_run :: "'fl run_call \<Rightarrow> (('pe, 'fl) exn, completed_process) outcome"
  create_subprocess_exec :: "exec_call \<Rightarrow> (('pe, 'fl) exn, 'proc) outcome"
  parse_error :: "bytes \<Rightarrow> 'pe"
  decode :: "bytes \<Rightarrow> string option"
  required_version :: "int list"

subsection \<open>Construction\<close>

text \<open>
  \<open>__init__\<close>: the attribute is stored, then \<open>assert self._executable.exists()\<close> runs
  (assertions enabled, the interpreter's default), then \<open>super().__init__()\<close>.
\<close>

definition CLIDriver_init ::
  "('a, 'fl, 'pe, 'proc) env \<Rightarrow> path \<Rightarrow> (('pe, 'fl) exn, driver) outcome"
where
  "CLIDriver_init env executable_path =
     (let self = \<lparr>executable = executable_path\<rparr>
      in if path_exists env (executable self) then driver_init env self
         else Raises AssertionError)"

subsection \<open>\<open>run\<close> and \<open>create_process\<close>\<close>

definition str_arg :: "('a, 'fl, 'pe, 'proc) env \<Rightarrow> 'a arg \<Rightarrow> string" where
  "str_arg env a = (case a of Str s \<Rightarrow> s | Obj x \<Rightarrow> obj_str env x)"

text \<open>\<open>sep.join(parts)\<close>.\<close>

fun join :: "string \<Rightarrow> string list \<Rightarrow> string" where
  "join sep [] = []"
| "join sep [x] = x"
| "join sep (x # y # ys) = x @ sep @ join sep (y # ys)"

definition run_debug ::
  "('a, 'fl, 'pe, 'proc) env \<Rightarrow> string list \<Rightarrow> 'fl option \<Rightarrow> string"
where
  "run_debug env cmd timeout_flt =
     ''CLIDriver:run -> command: '' @ [CHR 0x22] @ join '' '' cmd @ [CHR 0x22] @ '', timeout ''
       @ (case timeout_flt of None \<Rightarrow> ''None'' | Some f \<Rightarrow> float_str env f)"

text \<open>Lines 135 to 137: a non-zero return code raises what \<open>parse_error\<close> makes of stderr.\<close>

definition check_returncode ::
  "('a, 'fl, 'pe, 'proc) env \<Rightarrow> completed_process \<Rightarrow> (('pe, 'fl) exn, completed_process) outcome"
where
  "check_returncode env output =
     (if returncode output \<noteq> 0 then Raises (ParsedError (parse_error env (stderr output)))
      else Returns output)"

text \<open>
  \<open>run\<close> returns its outcome and the events, in order. With a solver, the \<open>with\<close> block
  holds the call of \<open>subprocess.run\<close>: the scope is left when that call has returned or
  raised, and is not left while it blocks.
\<close>

definition run ::
  "('a, 'fl, 'pe, 'proc) env \<Rightarrow> driver \<Rightarrow> 'a arg list \<Rightarrow> solver option \<Rightarrow> 'fl timedelta option
     \<Rightarrow> (('pe, 'fl) exn, completed_process) outcome \<times> 'fl event list"
where
  "run env self args solver_opt timeout =
     (let timeout_flt = (case timeout of None \<Rightarrow> None | Some t \<Rightarrow> Some (total_seconds t))
      in case solver_opt of
           None \<Rightarrow>
             (let cmd = [executable self, ''--allow-multiple-assignments'']
                          @ map (str_arg env) args;
                  call = \<lparr>rc_args = cmd, rc_stdin = None, rc_stdout = Some PIPE,
                          rc_stderr = Some PIPE, rc_timeout = timeout_flt\<rparr>;
                  trace = [Debug (run_debug env cmd timeout_flt), SubprocessRun call]
              in case subprocess_run env call of
                   Returns output \<Rightarrow> (check_returncode env output, trace)
                 | Raises e \<Rightarrow> (Raises e, trace)
                 | Blocks \<Rightarrow> (Blocks, trace))
         | Some solver \<Rightarrow>
             (let conf = configuration solver;
                  cmd = [executable self, ''--solver'', conf, ''--allow-multiple-assignments'']
                          @ map (str_arg env) args;
                  call = \<lparr>rc_args = cmd, rc_stdin = None, rc_stdout = Some PIPE,
                          rc_stderr = Some PIPE, rc_timeout = timeout_flt\<rparr>;
                  trace = [ConfEnter solver, Debug (run_debug env cmd timeout_flt),
                           SubprocessRun call]
              in case subprocess_run env call of
                   Returns output \<Rightarrow> (check_returncode env output, trace @ [ConfExit solver])
                 | Raises e \<Rightarrow> (Raises e, trace @ [ConfExit solver])
                 | Blocks \<Rightarrow> (Blocks, trace)))"

definition create_debug :: "path \<Rightarrow> string option \<Rightarrow> string list \<Rightarrow> string" where
  "create_debug program conf_opt strs =
     ''CLIDriver:create_process -> program: '' @ program @ '' args: '' @ [CHR 0x22]
       @ (case conf_opt of None \<Rightarrow> [] | Some conf \<Rightarrow> ''--solver '' @ conf @ '' '')
       @ ''--allow-multiple-assignments '' @ join '' '' strs @ [CHR 0x22]"

text \<open>
  \<open>create_process\<close>: the awaited spawn returns the process handle, raises, or never
  completes. Nothing is read and nothing is waited for after the spawn.
\<close>

definition create_process ::
  "('a, 'fl, 'pe, 'proc) env \<Rightarrow> driver \<Rightarrow> 'a arg list \<Rightarrow> solver option
     \<Rightarrow> (('pe, 'fl) exn, 'proc) outcome \<times> 'fl event list"
where
  "create_process env self args solver_opt =
     (case solver_opt of
        None \<Rightarrow>
          (let call = \<lparr>ec_program = executable self,
                       ec_args = ''--allow-multiple-assignments'' # map (str_arg env) args,
                       ec_stdin = None, ec_stdout = Some PIPE, ec_stderr = Some PIPE\<rparr>;
               trace = [Debug (create_debug (executable self) None (map (str_arg env) args)),
                        SubprocessExec call]
           in (create_subprocess_exec env call, trace))
      | Some solver \<Rightarrow>
          (let conf = configuration solver;
               call = \<lparr>ec_program = executable self,
                       ec_args = [''--solver'', conf, ''--allow-multiple-assignments'']
                                   @ map (str_arg env) args,
                       ec_stdin = None, ec_stdout = Some PIPE, ec_stderr = Some PIPE\<rparr>;
               trace = [ConfEnter solver,
                        Debug (create_debug (executable self) (Some conf) (map (str_arg env) args)),
                        SubprocessExec call]
           in case create_subprocess_exec env call of
                Blocks \<Rightarrow> (Blocks, trace)
              | r \<Rightarrow> (r, trace @ [ConfExit solver])))"

subsection \<open>The version query\<close>

definition minizinc_version ::
  "('a, 'fl, 'pe, 'proc) env \<Rightarrow> driver \<Rightarrow> (('pe, 'fl) exn, string) outcome \<times> 'fl event list"
where
  "minizinc_version env self =
     (case run env self [Str ''--version''] None None of
        (Returns output, trace) \<Rightarrow>
          (case decode env (stdout output) of
             None \<Rightarrow> (Raises UnicodeDecodeError, trace)
           | Some s \<Rightarrow> (Returns s, trace))
      | (Raises e, trace) \<Rightarrow> (Raises e, trace)
      | (Blocks, trace) \<Rightarrow> (Blocks, trace))"

text \<open>
  \<open>re.search(rb"version (\d+)\.(\d+)\.(\d+)", s)\<close>. In a bytes pattern \<open>\d\<close> is one of
  the ten ASCII digits. A group \<open>(\d+)\<close> that a dot must follow can only be the whole run
  of digits, and the last group is greedy with nothing after it, so at each start position
  the match is the one computed by \<open>match_version\<close>; \<open>re_search_version\<close> tries the
  start positions from the left.
\<close>

definition is_digit :: "char \<Rightarrow> bool" where
  "is_digit c = (c \<in> set ''0123456789'')"

fun strip_prefix :: "'a list \<Rightarrow> 'a list \<Rightarrow> 'a list option" where
  "strip_prefix [] s = Some s"
| "strip_prefix (p # ps) [] = None"
| "strip_prefix (p # ps) (c # cs) = (if p = c then strip_prefix ps cs else None)"

definition digits1 :: "bytes \<Rightarrow> (bytes \<times> bytes) option" where
  "digits1 s =
     (let d = takeWhile is_digit s
      in if d = [] then None else Some (d, dropWhile is_digit s))"

definition dot :: "bytes \<Rightarrow> bytes option" where
  "dot s = (case s of [] \<Rightarrow> None | c # r \<Rightarrow> if c = CHR ''.'' then Some r else None)"

definition match_version :: "bytes \<Rightarrow> (bytes \<times> bytes \<times> bytes) option" where
  "match_version s =
     (case strip_prefix ''version '' s of
        None \<Rightarrow> None
      | Some r0 \<Rightarrow>
     (case digits1 r0 of
        None \<Rightarrow> None
      | Some (g1, r1) \<Rightarrow>
     (case dot r1 of
        None \<Rightarrow> None
      | Some r2 \<Rightarrow>
     (case digits1 r2 of
        None \<Rightarrow> None
      | Some (g2, r3) \<Rightarrow>
     (case dot r3 of
        None \<Rightarrow> None
      | Some r4 \<Rightarrow>
     (case digits1 r4 of
        None \<Rightarrow> None
      | Some (g3, r5) \<Rightarrow> Some (g1, g2, g3)))))))"

fun re_search_version :: "bytes \<Rightarrow> (bytes \<times> bytes \<times> bytes) option" where
  "re_search_version [] = match_version []"
| "re_search_version (c # cs) =
     (case match_version (c # cs) of
        Some groups \<Rightarrow> Some groups
      | None \<Rightarrow> re_search_version cs)"

text \<open>
  \<open>int(i)\<close> on a bytes object made of ASCII digits (the limit that recent interpreters put
  on the number of digits is not modelled).
\<close>

definition int_of_digits :: "bytes \<Rightarrow> int" where
  "int_of_digits ds = foldl (\<lambda>a c. 10 * a + (of_char c - 48)) 0 ds"

text \<open>\<open>str\<close> of an integer and \<open>repr\<close> of a tuple of integers, as the f-string shows them.\<close>

fun str_nat :: "nat \<Rightarrow> string" where
  "str_nat n =
     (if n < 10 then [''0123456789'' ! n]
      else str_nat (n div 10) @ [''0123456789'' ! (n mod 10)])"

declare str_nat.simps [simp del]

definition str_int :: "int \<Rightarrow> string" where
  "str_int i = (if i < 0 then CHR ''-'' # str_nat (nat (- i)) else str_nat (nat i))"

definition repr_tuple :: "int list \<Rightarrow> string" where
  "repr_tuple xs =
     (case xs of
        [] \<Rightarrow> ''()''
      | [x] \<Rightarrow> ''('' @ str_int x @ '',)''
      | _ \<Rightarrow> ''('' @ join '', '' (map str_int xs) @ '')'')"

text \<open>\<open><\<close> on tuples of integers: the first differing position decides, then the length.\<close>

fun tuple_less :: "int list \<Rightarrow> int list \<Rightarrow> bool" where
  "tuple_less [] [] = False"
| "tuple_less [] (y # ys) = True"
| "tuple_less (x # xs) [] = False"
| "tuple_less (x # xs) (y # ys) = (if x = y then tuple_less xs ys else x < y)"

definition version_message :: "path \<Rightarrow> int list \<Rightarrow> int list \<Rightarrow> string" where
  "version_message exe found required =
     ''The MiniZinc driver found at '' @ [CHR 0x27] @ exe @ [CHR 0x27] @ '' has version ''
       @ repr_tuple found @ ''. The minimal required version is '' @ repr_tuple required @ ''.''"

definition check_version ::
  "('a, 'fl, 'pe, 'proc) env \<Rightarrow> driver \<Rightarrow> (('pe, 'fl) exn, unit) outcome \<times> 'fl event list"
where
  "check_version env self =
     (case run env self [Str ''--version''] None None of
        (Returns output, trace) \<Rightarrow>
          (case re_search_version (stdout output) of
             None \<Rightarrow> (Raises AttributeError, trace)
           | Some (g1, g2, g3) \<Rightarrow>
               (let found = [int_of_digits g1, int_of_digits g2, int_of_digits g3]
                in if tuple_less found (required_version env)
                   then (Raises (ConfigurationError
                           (version_message (executable self) found (required_version env))), trace)
                   else (Returns (), trace)))
      | (Raises e, trace) \<Rightarrow> (Raises e, trace)
      | (Blocks, trace) \<Rightarrow> (Blocks, trace))"

section \<open>Notions that the properties are stated with\<close>

text \<open>
  The command line as the interface description writes it:
  \<open><executable> [--solver <configToken>] --allow-multiple-assignments <args...>\<close>.
\<close>

definition spec_command :: "string \<Rightarrow> string option \<Rightarrow> string list \<Rightarrow> string list" where
  "spec_command exe token strs =
     [exe] @ (case token of None \<Rightarrow> [] | Some t \<Rightarrow> [''--solver'', t])
       @ [''--allow-multiple-assignments''] @ strs"

text \<open>
  The call \<open>subprocess.run(cmd, stdin=None, stdout=PIPE, stderr=PIPE, timeout=timeout_flt)\<close>,
  the call \<open>create_subprocess_exec(*cmd, stdin=None, stdout=PIPE, stderr=PIPE)\<close>, the float
  that a \<open>timeout\<close> argument becomes, and the command line of a call of the driver.
\<close>

definition sync_call :: "string list \<Rightarrow> 'fl option \<Rightarrow> 'fl run_call" where
  "sync_call cmd timeout_flt =
     \<lparr>rc_args = cmd, rc_stdin = None, rc_stdout = Some PIPE, rc_stderr = Some PIPE,
      rc_timeout = timeout_flt\<rparr>"

definition async_call :: "string list \<Rightarrow> exec_call" where
  "async_call cmd =
     \<lparr>ec_program = hd cmd, ec_args = tl cmd, ec_stdin = None, ec_stdout = Some PIPE,
      ec_stderr = Some PIPE\<rparr>"

definition timeout_seconds :: "'fl timedelta option \<Rightarrow> 'fl option" where
  "timeout_seconds timeout = (case timeout of None \<Rightarrow> None | Some t \<Rightarrow> Some (total_seconds t))"

definition driver_command ::
  "('a, 'fl, 'pe, 'proc) env \<Rightarrow> driver \<Rightarrow> 'a arg list \<Rightarrow> solver option \<Rightarrow> string list"
where
  "driver_command env self args solver_opt =
     spec_command (executable self)
       (case solver_opt of None \<Rightarrow> None | Some s \<Rightarrow> Some (configuration s))
       (map (str_arg env) args)"

text \<open>The command lines handed to a process primitive, read off the events.\<close>

fun command_of :: "'fl event \<Rightarrow> string list option" where
  "command_of (SubprocessRun c) = Some (rc_args c)"
| "command_of (SubprocessExec c) = Some (ec_program c # ec_args c)"
| "command_of _ = None"

definition commands :: "'fl event list \<Rightarrow> string list list" where
  "commands trace = List.map_filter command_of trace"

text \<open>The calls of \<open>subprocess.run\<close> among the events.\<close>

fun run_call_of :: "'fl event \<Rightarrow> 'fl run_call option" where
  "run_call_of (SubprocessRun c) = Some c"
| "run_call_of _ = None"

definition run_calls :: "'fl event list \<Rightarrow> 'fl run_call list" where
  "run_calls trace = List.map_filter run_call_of trace"

fun is_conf_event :: "'fl event \<Rightarrow> bool" where
  "is_conf_event (ConfEnter s) = True"
| "is_conf_event (ConfExit s) = True"
| "is_conf_event _ = False"

text \<open>
  The life of the configuration scope of a solver, followed along the events: entered, then
  one call of a process primitive whose command line carries the token, then left.
\<close>

datatype phase = Outside | Acquired | Invoked | Released

fun phase_step :: "solver \<Rightarrow> phase \<Rightarrow> 'fl event \<Rightarrow> phase option" where
  "phase_step s Outside (ConfEnter s') = (if s' = s then Some Acquired else None)"
| "phase_step s Acquired (Debug m) = Some Acquired"
| "phase_step s Acquired (SubprocessRun c) =
     (if configuration s \<in> set (rc_args c) then Some Invoked else None)"
| "phase_step s Acquired (SubprocessExec c) =
     (if configuration s \<in> set (ec_args c) then Some Invoked else None)"
| "phase_step s Invoked (ConfExit s') = (if s' = s then Some Released else None)"
| "phase_step s ph e = None"

fun phase_after :: "solver \<Rightarrow> phase \<Rightarrow> 'fl event list \<Rightarrow> phase option" where
  "phase_after s ph [] = Some ph"
| "phase_after s ph (e # es) =
     (case phase_step s ph e of None \<Rightarrow> None | Some ph' \<Rightarrow> phase_after s ph' es)"

text \<open>
  The order that releases the token as soon as the command line is built: the scope is left
  before any process primitive is called.
\<close>

fun is_invocation :: "'fl event \<Rightarrow> bool" where
  "is_invocation (SubprocessRun c) = True"
| "is_invocation (SubprocessExec c) = True"
| "is_invocation _ = False"

fun is_release :: "'fl event \<Rightarrow> bool" where
  "is_release (ConfExit s) = True"
| "is_release _ = False"

definition released_before_invocation :: "'fl event list \<Rightarrow> bool" where
  "released_before_invocation trace =
     list_ex is_release (takeWhile (\<lambda>e. \<not> is_invocation e) trace)"

text \<open>
  Containing a substring that the pattern \<open>version (\d+)\.(\d+)\.(\d+)\<close> matches, said
  without an algorithm.
\<close>

definition digit_run :: "bytes \<Rightarrow> bool" where
  "digit_run g = (g \<noteq> [] \<and> list_all is_digit g)"

definition contains_version :: "bytes \<Rightarrow> bool" where
  "contains_version s =
     (\<exists>pre g1 g2 g3 post.
        s = pre @ ''version '' @ g1 @ ''.'' @ g2 @ ''.'' @ g3 @ post
        \<and> digit_run g1 \<and> digit_run g2 \<and> digit_run g3)"

text \<open>
  A concrete environment to evaluate the driver in: one executable, at
  \<open>/usr/bin/minizinc\<close>, whose process needs \<open>duration\<close> units of time (\<open>None\<close>: it never
  exits) and then ends as \<open>result\<close> says. Time is counted in natural numbers.
\<close>

definition sample_env :: "nat option \<Rightarrow> completed_process \<Rightarrow> (int, nat, bytes, nat) env" where
  "sample_env duration result =
     \<lparr>path_exists = (\<lambda>p. p = ''/usr/bin/minizinc''),
      driver_init = Returns,
      obj_str = str_int,
      float_str = str_nat,
      subprocess_run = (\<lambda>c.
        case rc_timeout c of
          None \<Rightarrow> (case duration of None \<Rightarrow> Blocks | Some d \<Rightarrow> Returns result)
        | Some t \<Rightarrow>
            (case duration of
               None \<Rightarrow> Raises (TimeoutExpired (rc_args c) t)
             | Some d \<Rightarrow> if d \<le> t then Returns result
                         else Raises (TimeoutExpired (rc_args c) t))),
      create_subprocess_exec = (\<lambda>c.
        if ec_program c = ''/usr/bin/minizinc'' then Returns 4711
        else Raises (OSError (ec_program c))),
      parse_error = (\<lambda>b. b),
      decode = Some,
      required_version = [2, 6, 0]\<rparr>"

definition sample_driver :: driver where
  "sample_driver = \<lparr>executable = ''/usr/bin/minizinc''\<rparr>"

definition sample_fmt :: "pyval \<Rightarrow> string" where
  "sample_fmt v = (case v of JStr s \<Rightarrow> s | _ \<Rightarrow> ''?'')"

section \<open>Properties of \<open>to_python_type\<close>\<close>

lemma list_wrap_0 [simp]: "list_wrap 0 t = t"
  by (simp add: list_wrap.simps)

lemma list_wrap_2: "list_wrap 2 t = PyList (PyList t)"
  by (simp add: list_wrap.simps [of 2] list_wrap.simps [of 1])

lemma base_type_unknown: "\<not> known_base v \<Longrightarrow> base_type v = (PyInt, True)"
  by (simp add: base_type_def known_base_def)

lemma base_type_int: "base_type (JStr ''int'') = (PyInt, False)"
  by (simp add: base_type_def)

lemma to_python_type_unknown_as_int:
  assumes "mzn_type ''type'' = Some v" and "\<not> known_base v"
  shows "to_python_type fmt mzn_type =
           (fst (to_python_type fmt (mzn_type(''type'' \<mapsto> JStr ''int''))), [warning_text (fmt v)])"
  using assms
  by (simp add: to_python_type_def base_type_unknown base_type_int split: option.splits)

lemma to_python_type_unknown_set:
  assumes "mzn_type ''type'' = Some v" and "\<not> known_base v"
    and "mzn_type ''set'' = Some b" and "truthy b"
    and "as_int (case mzn_type ''dim'' of None \<Rightarrow> JInt 0 | Some d \<Rightarrow> d) = Some dim"
  shows "fst (to_python_type fmt mzn_type) = Returns (list_wrap dim (PyUnion [PySet PyInt, PyRange]))"
  using assms
  by (simp add: to_python_type_def base_type_unknown set_wrap_def)

text \<open>
  C3: \<open>to_python_type\<close> maps \<open>{"type": "int"}\<close> to the integer type,
  \<open>{"type": "int", "set": true}\<close> to the union of set-of-integer and range, and
  \<open>{"type": "bool", "dim": 2}\<close> to list of list of boolean. For every dictionary whose
  \<open>"type"\<close> entry is none of \<open>"bool"\<close>, \<open>"float"\<close>, \<open>"int"\<close>, the base type is the
  integer type, exactly one warning is emitted, and the outcome is the one of the same
  dictionary with \<open>"type": "int"\<close>: the unknown base type raises nothing (no \<open>KeyError\<close>),
  and the call returns whenever \<open>"dim"\<close> is absent or an integer.
\<close>

theorem to_python_type_base_types:
  "fst (to_python_type fmt [''type'' \<mapsto> JStr ''int''])
         = (Returns PyInt :: (('pe, 'fl) exn, pytype) outcome)
   \<and> fst (to_python_type fmt [''type'' \<mapsto> JStr ''int'', ''set'' \<mapsto> JBool True])
         = (Returns (PyUnion [PySet PyInt, PyRange]) :: (('pe, 'fl) exn, pytype) outcome)
   \<and> fst (to_python_type fmt [''type'' \<mapsto> JStr ''bool'', ''dim'' \<mapsto> JInt 2])
         = (Returns (PyList (PyList PyBool)) :: (('pe, 'fl) exn, pytype) outcome)
   \<and> (\<forall>mzn_type v.
         mzn_type ''type'' = Some v \<and> \<not> known_base v \<longrightarrow>
           fst (base_type v) = PyInt
           \<and> to_python_type fmt mzn_type
               = (fst (to_python_type fmt (mzn_type(''type'' \<mapsto> JStr ''int'')))
                    :: (('pe, 'fl) exn, pytype) outcome,
                  [warning_text (fmt v)])
           \<and> (\<forall>k. fst (to_python_type fmt mzn_type)
                      \<noteq> (Raises (KeyError k) :: (('pe, 'fl) exn, pytype) outcome))
           \<and> ((case mzn_type ''dim'' of None \<Rightarrow> True | Some d \<Rightarrow> as_int d \<noteq> None) \<longrightarrow>
                 (\<exists>t. fst (to_python_type fmt mzn_type)
                         = (Returns t :: (('pe, 'fl) exn, pytype) outcome))))"
proof (intro conjI allI impI)
  show "fst (to_python_type fmt [''type'' \<mapsto> JStr ''int''])
          = (Returns PyInt :: (('pe, 'fl) exn, pytype) outcome)"
    by (simp add: to_python_type_def base_type_def)
  show "fst (to_python_type fmt [''type'' \<mapsto> JStr ''int'', ''set'' \<mapsto> JBool True])
          = (Returns (PyUnion [PySet PyInt, PyRange]) :: (('pe, 'fl) exn, pytype) outcome)"
    by (simp add: to_python_type_def base_type_def set_wrap_def)
  show "fst (to_python_type fmt [''type'' \<mapsto> JStr ''bool'', ''dim'' \<mapsto> JInt 2])
          = (Returns (PyList (PyList PyBool)) :: (('pe, 'fl) exn, pytype) outcome)"
    by (simp add: to_python_type_def base_type_def list_wrap_2)
next
  fix mzn_type v
  assume h: "mzn_type ''type'' = Some v \<and> \<not> known_base v"
  show "fst (base_type v) = PyInt"
    using h by (simp add: base_type_unknown)
  show "to_python_type fmt mzn_type
          = (fst (to_python_type fmt (mzn_type(''type'' \<mapsto> JStr ''int'')))
               :: (('pe, 'fl) exn, pytype) outcome,
             [warning_text (fmt v)])"
    using h by (simp add: to_python_type_unknown_as_int)
  show "fst (to_python_type fmt mzn_type)
          \<noteq> (Raises (KeyError k) :: (('pe, 'fl) exn, pytype) outcome)" for k
    using h by (auto simp add: to_python_type_def base_type_unknown Let_def split: option.splits)
  show "\<exists>t. fst (to_python_type fmt mzn_type) = (Returns t :: (('pe, 'fl) exn, pytype) outcome)"
    if "case mzn_type ''dim'' of None \<Rightarrow> True | Some d \<Rightarrow> as_int d \<noteq> None"
    using h that by (auto simp add: to_python_type_def base_type_unknown split: option.splits)
qed

theorem to_python_type_base_types_witness:
  "[''type'' \<mapsto> JStr ''enum'', ''dim'' \<mapsto> JInt 1] ''type'' = Some (JStr ''enum'')
   \<and> \<not> known_base (JStr ''enum'')
   \<and> to_python_type sample_fmt [''type'' \<mapsto> JStr ''enum'', ''dim'' \<mapsto> JInt 1]
       = (Returns (PyList PyInt) :: ((unit, unit) exn, pytype) outcome,
          [''Unable to determine minizinc type `enum` assuming integer type''])"
proof -
  have k: "[''type'' \<mapsto> JStr ''enum'', ''dim'' \<mapsto> JInt 1] ''type'' = Some (JStr ''enum'')
           \<and> \<not> known_base (JStr ''enum'')"
    by (simp add: known_base_def)
  have i: "fst (to_python_type sample_fmt
                  ([''type'' \<mapsto> JStr ''enum'', ''dim'' \<mapsto> JInt 1](''type'' \<mapsto> JStr ''int'')))
             = (Returns (PyList PyInt) :: ((unit, unit) exn, pytype) outcome)"
    by (simp add: to_python_type_def base_type_def list_wrap.simps [of 1])
  note u = to_python_type_base_types
    [where ?'pe = unit and ?'fl = unit and fmt = sample_fmt,
     THEN conjunct2, THEN conjunct2, THEN conjunct2,
     THEN spec [of _ "[''type'' \<mapsto> JStr ''enum'', ''dim'' \<mapsto> JInt 1]"],
     THEN spec [of _ "JStr ''enum''"], THEN mp, OF k]
  from u [THEN conjunct2, THEN conjunct1] k i show ?thesis
    by (simp add: warning_text_def sample_fmt_def)
qed

text \<open>
  C10, as the code has it: for every dictionary whose \<open>"type"\<close> entry is none of
  \<open>"bool"\<close>, \<open>"float"\<close>, \<open>"int"\<close> and whose \<open>"set"\<close> entry is true, the outcome is the
  one of the same dictionary with \<open>"type": "int"\<close>, the unknown base type being defaulted
  to integer before the set wrapping: the union of set-of-integer and range, wrapped in one
  list per dimension that \<open>"dim"\<close> gives. Without a \<open>"dim"\<close> entry, or with a dimension
  below one, that is the type returned for \<open>{"type": "int", "set": true}\<close>.
\<close>

theorem to_python_type_unknown_set_as_int_set:
  assumes "mzn_type ''type'' = Some v" and "\<not> known_base v"
    and "mzn_type ''set'' = Some b" and "truthy b"
  shows "fst (to_python_type fmt mzn_type)
           = (fst (to_python_type fmt (mzn_type(''type'' \<mapsto> JStr ''int'')))
                :: (('pe, 'fl) exn, pytype) outcome)
         \<and> (\<forall>dim. as_int (case mzn_type ''dim'' of None \<Rightarrow> JInt 0 | Some d \<Rightarrow> d) = Some dim \<longrightarrow>
               fst (to_python_type fmt mzn_type)
                 = (Returns (list_wrap dim (PyUnion [PySet PyInt, PyRange]))
                      :: (('pe, 'fl) exn, pytype) outcome)
               \<and> (dim < 1 \<longrightarrow>
                     fst (to_python_type fmt mzn_type)
                       = (fst (to_python_type fmt
                                 [''type'' \<mapsto> JStr ''int'', ''set'' \<mapsto> JBool True])
                            :: (('pe, 'fl) exn, pytype) outcome)))
         \<and> (mzn_type ''dim'' = None \<longrightarrow>
              fst (to_python_type fmt mzn_type)
                = (Returns (PyUnion [PySet PyInt, PyRange]) :: (('pe, 'fl) exn, pytype) outcome)
              \<and> fst (to_python_type fmt mzn_type)
                  = (fst (to_python_type fmt [''type'' \<mapsto> JStr ''int'', ''set'' \<mapsto> JBool True])
                       :: (('pe, 'fl) exn, pytype) outcome))"
proof (intro conjI allI impI)
  show "fst (to_python_type fmt mzn_type)
          = (fst (to_python_type fmt (mzn_type(''type'' \<mapsto> JStr ''int'')))
               :: (('pe, 'fl) exn, pytype) outcome)"
    using assms(1,2) by (simp add: to_python_type_unknown_as_int)
next
  fix dim
  assume d: "as_int (case mzn_type ''dim'' of None \<Rightarrow> JInt 0 | Some d \<Rightarrow> d) = Some dim"
  show w: "fst (to_python_type fmt mzn_type)
          = (Returns (list_wrap dim (PyUnion [PySet PyInt, PyRange]))
               :: (('pe, 'fl) exn, pytype) outcome)"
    using assms d by (rule to_python_type_unknown_set)
  show "fst (to_python_type fmt mzn_type)
          = (fst (to_python_type fmt [''type'' \<mapsto> JStr ''int'', ''set'' \<mapsto> JBool True])
               :: (('pe, 'fl) exn, pytype) outcome)"
    if "dim < 1"
  proof -
    have r: "fst (to_python_type fmt [''type'' \<mapsto> JStr ''int'', ''set'' \<mapsto> JBool True])
               = (Returns (PyUnion [PySet PyInt, PyRange]) :: (('pe, 'fl) exn, pytype) outcome)"
      by (simp add: to_python_type_def base_type_int set_wrap_def)
    have l: "list_wrap dim (PyUnion [PySet PyInt, PyRange]) = PyUnion [PySet PyInt, PyRange]"
      using that by (simp add: list_wrap.simps [of dim])
    show ?thesis
      unfolding w r l by (rule refl)
  qed
next
  assume n: "mzn_type ''dim'' = None"
  then have "as_int (case mzn_type ''dim'' of None \<Rightarrow> JInt 0 | Some d \<Rightarrow> d) = Some 0"
    by simp
  with assms have u: "fst (to_python_type fmt mzn_type)
          = (Returns (list_wrap 0 (PyUnion [PySet PyInt, PyRange]))
               :: (('pe, 'fl) exn, pytype) outcome)"
    by (rule to_python_type_unknown_set)
  show "fst (to_python_type fmt mzn_type)
          = (Returns (PyUnion [PySet PyInt, PyRange]) :: (('pe, 'fl) exn, pytype) outcome)"
    using u by simp
  show "fst (to_python_type fmt mzn_type)
          = (fst (to_python_type fmt [''type'' \<mapsto> JStr ''int'', ''set'' \<mapsto> JBool True])
               :: (('pe, 'fl) exn, pytype) outcome)"
    using u by (simp add: to_python_type_def base_type_int set_wrap_def)
qed

theorem to_python_type_unknown_set_as_int_set_witness:
  "fst (to_python_type sample_fmt
          [''type'' \<mapsto> JStr ''enum'', ''set'' \<mapsto> JBool True, ''dim'' \<mapsto> JInt 1])
     = (Returns (PyList (PyUnion [PySet PyInt, PyRange])) :: ((unit, unit) exn, pytype) outcome)
   \<and> fst (to_python_type sample_fmt [''type'' \<mapsto> JStr ''enum'', ''set'' \<mapsto> JBool True])
     = (Returns (PyUnion [PySet PyInt, PyRange]) :: ((unit, unit) exn, pytype) outcome)"
proof -
  have d: "as_int (case [''type'' \<mapsto> JStr ''enum'', ''set'' \<mapsto> JBool True, ''dim'' \<mapsto> JInt 1]
                          ''dim'' of None \<Rightarrow> JInt 0 | Some d \<Rightarrow> d) = Some 1"
    by simp
  note a = to_python_type_unknown_set_as_int_set
    [where ?'pe = unit and ?'fl = unit and fmt = sample_fmt
       and mzn_type = "[''type'' \<mapsto> JStr ''enum'', ''set'' \<mapsto> JBool True, ''dim'' \<mapsto> JInt 1]"
       and v = "JStr ''enum''" and b = "JBool True",
     THEN conjunct2, THEN conjunct1, THEN spec [of _ 1], THEN mp, OF _ _ _ _ d, THEN conjunct1]
  note b = to_python_type_unknown_set_as_int_set
    [where ?'pe = unit and ?'fl = unit and fmt = sample_fmt
       and mzn_type = "[''type'' \<mapsto> JStr ''enum'', ''set'' \<mapsto> JBool True]"
       and v = "JStr ''enum''" and b = "JBool True",
     THEN conjunct2, THEN conjunct2, THEN mp, THEN conjunct1]
  have "fst (to_python_type sample_fmt
          [''type'' \<mapsto> JStr ''enum'', ''set'' \<mapsto> JBool True, ''dim'' \<mapsto> JInt 1])
     = (Returns (PyList (PyUnion [PySet PyInt, PyRange])) :: ((unit, unit) exn, pytype) outcome)"
    using a by (simp add: known_base_def list_wrap.simps [of 1])
  moreover have "fst (to_python_type sample_fmt [''type'' \<mapsto> JStr ''enum'', ''set'' \<mapsto> JBool True])
     = (Returns (PyUnion [PySet PyInt, PyRange]) :: ((unit, unit) exn, pytype) outcome)"
    using b by (simp add: known_base_def)
  ultimately show ?thesis
    by simp
qed

text \<open>
  C10 as stated (for every such dictionary the type returned for
  \<open>{"type": "int", "set": true}\<close>) fails: with \<open>"dim": 1\<close> beside an unknown type and a
  true \<open>"set"\<close>, the result is a list of that union, not the union.
\<close>

theorem to_python_type_unknown_set_with_dim:
  "fst (to_python_type sample_fmt
          [''type'' \<mapsto> JStr ''enum'', ''set'' \<mapsto> JBool True, ''dim'' \<mapsto> JInt 1])
     = (Returns (PyList (PyUnion [PySet PyInt, PyRange])) :: ((unit, unit) exn, pytype) outcome)
   \<and> fst (to_python_type sample_fmt [''type'' \<mapsto> JStr ''int'', ''set'' \<mapsto> JBool True])
     = (Returns (PyUnion [PySet PyInt, PyRange]) :: ((unit, unit) exn, pytype) outcome)
   \<and> fst (to_python_type sample_fmt
          [''type'' \<mapsto> JStr ''enum'', ''set'' \<mapsto> JBool True, ''dim'' \<mapsto> JInt 1])
     \<noteq> (fst (to_python_type sample_fmt [''type'' \<mapsto> JStr ''int'', ''set'' \<mapsto> JBool True])
          :: ((unit, unit) exn, pytype) outcome)"
  by (simp add: to_python_type_def base_type_def known_base_def set_wrap_def
        list_wrap.simps [of 1])

section \<open>Properties of the driver\<close>

subsection \<open>What \<open>run\<close> and \<open>create_process\<close> do\<close>

lemma run_outcome:
  "fst (run env self args solver_opt timeout) =
     (case subprocess_run env
             (sync_call (driver_command env self args solver_opt) (timeout_seconds timeout)) of
        Returns output \<Rightarrow> check_returncode env output
      | Raises e \<Rightarrow> Raises e
      | Blocks \<Rightarrow> Blocks)"
  by (cases solver_opt; cases timeout)
     (simp_all add: run_def Let_def sync_call_def driver_command_def spec_command_def
        timeout_seconds_def split: outcome.splits)

lemma run_trace:
  "snd (run env self args solver_opt timeout) =
     (case solver_opt of None \<Rightarrow> [] | Some s \<Rightarrow> [ConfEnter s])
     @ [Debug (run_debug env (driver_command env self args solver_opt) (timeout_seconds timeout)),
        SubprocessRun
          (sync_call (driver_command env self args solver_opt) (timeout_seconds timeout))]
     @ (case solver_opt of
          None \<Rightarrow> []
        | Some s \<Rightarrow>
            if subprocess_run env
                 (sync_call (driver_command env self args solver_opt) (timeout_seconds timeout))
               = Blocks
            then [] else [ConfExit s])"
  by (cases solver_opt; cases timeout)
     (simp_all add: run_def Let_def sync_call_def driver_command_def spec_command_def
        timeout_seconds_def split: outcome.splits)

lemma create_process_outcome:
  "fst (create_process env self args solver_opt)
     = create_subprocess_exec env (async_call (driver_command env self args solver_opt))"
  by (cases solver_opt)
     (simp_all add: create_process_def Let_def driver_command_def spec_command_def
        async_call_def split: outcome.splits)

lemma create_process_trace:
  "snd (create_process env self args solver_opt) =
     (case solver_opt of None \<Rightarrow> [] | Some s \<Rightarrow> [ConfEnter s])
     @ [Debug (create_debug (executable self)
                 (case solver_opt of None \<Rightarrow> None | Some s \<Rightarrow> Some (configuration s))
                 (map (str_arg env) args)),
        SubprocessExec (async_call (driver_command env self args solver_opt))]
     @ (case solver_opt of
          None \<Rightarrow> []
        | Some s \<Rightarrow>
            if create_subprocess_exec env (async_call (driver_command env self args solver_opt))
               = Blocks
            then [] else [ConfExit s])"
  by (cases solver_opt)
     (simp_all add: create_process_def Let_def driver_command_def spec_command_def
        async_call_def split: outcome.splits)

lemma commands_run:
  "commands (snd (run env self args solver_opt timeout))
     = [driver_command env self args solver_opt]"
  by (cases solver_opt)
     (simp_all add: run_trace commands_def List.map_filter_simps sync_call_def)

lemma commands_create_process:
  "commands (snd (create_process env self args solver_opt))
     = [driver_command env self args solver_opt]"
  by (cases solver_opt)
     (simp_all add: create_process_trace commands_def List.map_filter_simps async_call_def
        driver_command_def spec_command_def)

text \<open>
  C1: for every argument list, the one command that \<open>run\<close> and \<open>create_process\<close> hand to
  their process primitive is the executable path, then \<open>--allow-multiple-assignments\<close>,
  then the stringified arguments in order when no solver is given; with a solver,
  \<open>--solver\<close> and the configuration token stand right after the executable path and
  before \<open>--allow-multiple-assignments\<close>. In both cases it is the command line of the
  interface description.
\<close>

theorem command_assembly:
  "commands (snd (run env self args None timeout))
     = [executable self # ''--allow-multiple-assignments'' # map (str_arg env) args]
   \<and> commands (snd (create_process env self args None))
     = [executable self # ''--allow-multiple-assignments'' # map (str_arg env) args]
   \<and> commands (snd (run env self args (Some solver) timeout))
     = [executable self # ''--solver'' # configuration solver
          # ''--allow-multiple-assignments'' # map (str_arg env) args]
   \<and> commands (snd (create_process env self args (Some solver)))
     = [executable self # ''--solver'' # configuration solver
          # ''--allow-multiple-assignments'' # map (str_arg env) args]
   \<and> commands (snd (run env self args solver_opt timeout))
     = [spec_command (executable self)
          (case solver_opt of None \<Rightarrow> None | Some s \<Rightarrow> Some (configuration s))
          (map (str_arg env) args)]
   \<and> commands (snd (create_process env self args solver_opt))
     = [spec_command (executable self)
          (case solver_opt of None \<Rightarrow> None | Some s \<Rightarrow> Some (configuration s))
          (map (str_arg env) args)]"
  by (simp add: commands_run commands_create_process driver_command_def spec_command_def)

theorem command_assembly_witness:
  "commands (snd (run (sample_env (Some 1) \<lparr>returncode = 0, stdout = [], stderr = []\<rparr>)
                    sample_driver [Str ''model.mzn'', Obj 42] (Some (Solver ''gecode.msc''))
                    (Some (Timedelta 5))))
     = [[''/usr/bin/minizinc'', ''--solver'', ''gecode.msc'', ''--allow-multiple-assignments'',
         ''model.mzn'', ''42'']]"
  using command_assembly
          [where env = "sample_env (Some 1) \<lparr>returncode = 0, stdout = [], stderr = []\<rparr>"
             and self = sample_driver and args = "[Str ''model.mzn'', Obj 42]"
             and timeout = "Some (Timedelta 5)" and solver = "Solver ''gecode.msc''"
             and solver_opt = None, THEN conjunct2, THEN conjunct2, THEN conjunct1]
  by (simp add: sample_env_def sample_driver_def str_arg_def str_int_def str_nat.simps)

lemma run_calls_run:
  "run_calls (snd (run env self args solver_opt timeout))
     = [sync_call (driver_command env self args solver_opt) (timeout_seconds timeout)]"
  by (cases solver_opt) (simp_all add: run_trace run_calls_def List.map_filter_simps)

text \<open>
  C4: whenever the process of a synchronous run has exited, with a non-zero return code
  \<open>run\<close> raises what the error parser makes of the captured stderr bytes and returns no
  process result; with the return code zero it returns the completed process as the
  primitive delivered it. The one call of the primitive asks for stdout and stderr to be
  captured through pipes.
\<close>

theorem run_exit_status:
  assumes "subprocess_run env
             (sync_call (driver_command env self args solver_opt) (timeout_seconds timeout))
           = Returns output"
  shows "(returncode output \<noteq> 0 \<longrightarrow>
            fst (run env self args solver_opt timeout)
              = Raises (ParsedError (parse_error env (stderr output)))
            \<and> (\<forall>r. fst (run env self args solver_opt timeout) \<noteq> Returns r))
         \<and> (returncode output = 0 \<longrightarrow>
              fst (run env self args solver_opt timeout) = Returns output)
         \<and> run_calls (snd (run env self args solver_opt timeout))
              = [sync_call (driver_command env self args solver_opt) (timeout_seconds timeout)]
         \<and> list_all (\<lambda>c. rc_stdout c = Some PIPE \<and> rc_stderr c = Some PIPE)
              (run_calls (snd (run env self args solver_opt timeout)))"
  using assms
  by (simp add: run_outcome run_calls_run check_returncode_def sync_call_def)

theorem run_exit_status_witness:
  "fst (run (sample_env (Some 1) \<lparr>returncode = 1, stdout = [], stderr = ''syntax error''\<rparr>)
            sample_driver [Str ''model.mzn''] None None)
     = Raises (ParsedError ''syntax error'')
   \<and> fst (run (sample_env (Some 1) \<lparr>returncode = 0, stdout = ''ok'', stderr = []\<rparr>)
            sample_driver [Str ''model.mzn''] None None)
     = Returns \<lparr>returncode = 0, stdout = ''ok'', stderr = []\<rparr>"
proof -
  have a: "subprocess_run
             (sample_env (Some 1) \<lparr>returncode = 1, stdout = [], stderr = ''syntax error''\<rparr>)
             (sync_call (driver_command
                (sample_env (Some 1) \<lparr>returncode = 1, stdout = [], stderr = ''syntax error''\<rparr>)
                sample_driver [Str ''model.mzn''] None) (timeout_seconds None))
           = Returns \<lparr>returncode = 1, stdout = [], stderr = ''syntax error''\<rparr>"
    by (simp add: sample_env_def sync_call_def timeout_seconds_def)
  have b: "subprocess_run
             (sample_env (Some 1) \<lparr>returncode = 0, stdout = ''ok'', stderr = []\<rparr>)
             (sync_call (driver_command
                (sample_env (Some 1) \<lparr>returncode = 0, stdout = ''ok'', stderr = []\<rparr>)
                sample_driver [Str ''model.mzn''] None) (timeout_seconds None))
           = Returns \<lparr>returncode = 0, stdout = ''ok'', stderr = []\<rparr>"
    by (simp add: sample_env_def sync_call_def timeout_seconds_def)
  from run_exit_status [OF a, THEN conjunct1] run_exit_status [OF b, THEN conjunct2, THEN conjunct1]
  show ?thesis
    by (simp add: sample_env_def)
qed

text \<open>
  C7: for every synchronous run given a timeout, the timeout reaches the primitive as
  \<open>total_seconds()\<close>, and when the primitive raises its timeout error, \<open>run\<close> raises that
  same error and returns no result. Without a timeout the primitive is called with no time
  limit: \<open>run\<close> blocks for as long as the primitive does, and raises a timeout error only
  if the primitive itself did.
\<close>

theorem run_timeout:
  "run_calls (snd (run env self args solver_opt (Some t)))
     = [sync_call (driver_command env self args solver_opt) (Some (total_seconds t))]
   \<and> (subprocess_run env
         (sync_call (driver_command env self args solver_opt) (Some (total_seconds t)))
       = Raises (TimeoutExpired c f) \<longrightarrow>
         fst (run env self args solver_opt (Some t)) = Raises (TimeoutExpired c f)
         \<and> (\<forall>r. fst (run env self args solver_opt (Some t)) \<noteq> Returns r))
   \<and> run_calls (snd (run env self args solver_opt None))
       = [sync_call (driver_command env self args solver_opt) None]
   \<and> (subprocess_run env (sync_call (driver_command env self args solver_opt) None) = Blocks \<longrightarrow>
         fst (run env self args solver_opt None) = Blocks)
   \<and> (\<forall>c' f'. fst (run env self args solver_opt None) = Raises (TimeoutExpired c' f') \<longrightarrow>
         subprocess_run env (sync_call (driver_command env self args solver_opt) None)
           = Raises (TimeoutExpired c' f'))"
  by (auto simp add: run_outcome run_calls_run timeout_seconds_def check_returncode_def
        split: outcome.splits)

theorem run_timeout_witness:
  "fst (run (sample_env (Some 9) \<lparr>returncode = 0, stdout = [], stderr = []\<rparr>)
            sample_driver [Str ''model.mzn''] None (Some (Timedelta 5)))
     = Raises (TimeoutExpired
                 [''/usr/bin/minizinc'', ''--allow-multiple-assignments'', ''model.mzn''] 5)
   \<and> fst (run (sample_env None \<lparr>returncode = 0, stdout = [], stderr = []\<rparr>)
            sample_driver [Str ''model.mzn''] None None)
     = Blocks"
proof -
  have a: "subprocess_run (sample_env (Some 9) \<lparr>returncode = 0, stdout = [], stderr = []\<rparr>)
             (sync_call (driver_command
                (sample_env (Some 9) \<lparr>returncode = 0, stdout = [], stderr = []\<rparr>)
                sample_driver [Str ''model.mzn''] None) (Some (total_seconds (Timedelta 5))))
           = Raises (TimeoutExpired
                [''/usr/bin/minizinc'', ''--allow-multiple-assignments'', ''model.mzn''] 5)"
    by (simp add: sample_env_def sync_call_def driver_command_def spec_command_def
          sample_driver_def str_arg_def)
  have b: "subprocess_run (sample_env None \<lparr>returncode = 0, stdout = [], stderr = []\<rparr>)
             (sync_call (driver_command
                (sample_env None \<lparr>returncode = 0, stdout = [], stderr = []\<rparr>)
                sample_driver [Str ''model.mzn''] None) None)
           = Blocks"
    by (simp add: sample_env_def sync_call_def)
  from run_timeout [THEN conjunct2, THEN conjunct1, THEN mp, OF a, THEN conjunct1]
       run_timeout [THEN conjunct2, THEN conjunct2, THEN conjunct2, THEN conjunct1, THEN mp, OF b]
  show ?thesis
    by simp
qed

text \<open>
  C8: when the path does not exist as the initialiser runs, the assertion fails and
  construction raises \<open>AssertionError\<close>, the precondition failure of the \<open>assert\<close>
  statement, before anything else happens. When the path exists, the initialiser makes no
  further check of its own: the outcome is the one of the base initialiser on the driver
  that holds the path. So, with a base initialiser that returns (the spec gives
  construction no other validation), construction succeeds if and only if the path exists.
\<close>

theorem construction:
  "(\<not> path_exists env executable_path \<longrightarrow>
      CLIDriver_init env executable_path = Raises AssertionError)
   \<and> (path_exists env executable_path \<longrightarrow>
         CLIDriver_init env executable_path = driver_init env \<lparr>executable = executable_path\<rparr>)
   \<and> ((\<forall>d. driver_init env d = Returns d) \<longrightarrow>
         ((\<exists>self. CLIDriver_init env executable_path = Returns self)
            \<longleftrightarrow> path_exists env executable_path)
         \<and> (path_exists env executable_path \<longrightarrow>
               CLIDriver_init env executable_path = Returns \<lparr>executable = executable_path\<rparr>))"
  by (simp add: CLIDriver_init_def)

theorem construction_witness:
  "(\<forall>d. driver_init (sample_env None \<lparr>returncode = 0, stdout = [], stderr = []\<rparr>) d = Returns d)
   \<and> CLIDriver_init (sample_env None \<lparr>returncode = 0, stdout = [], stderr = []\<rparr>)
     ''/usr/bin/minizinc'' = Returns sample_driver
   \<and> CLIDriver_init (sample_env None \<lparr>returncode = 0, stdout = [], stderr = []\<rparr>)
     ''/opt/minizinc'' = Raises AssertionError"
proof -
  have b: "\<forall>d. driver_init (sample_env None \<lparr>returncode = 0, stdout = [], stderr = []\<rparr>) d
             = Returns d"
    by (simp add: sample_env_def)
  have e: "path_exists (sample_env None \<lparr>returncode = 0, stdout = [], stderr = []\<rparr>)
             ''/usr/bin/minizinc''"
    by (simp add: sample_env_def)
  have n: "\<not> path_exists (sample_env None \<lparr>returncode = 0, stdout = [], stderr = []\<rparr>)
             ''/opt/minizinc''"
    by (simp add: sample_env_def)
  from construction [THEN conjunct2, THEN conjunct2, THEN mp, OF b, THEN conjunct2, THEN mp, OF e]
       construction [THEN conjunct1, THEN mp, OF n] b
  show ?thesis
    by (simp add: sample_driver_def)
qed

lemma minizinc_version_trace:
  "snd (minizinc_version env self) = snd (run env self [Str ''--version''] None None)"
  by (simp add: minizinc_version_def split: prod.splits outcome.splits option.splits)

lemma version_command:
  "driver_command env self [Str ''--version''] None
     = [executable self, ''--allow-multiple-assignments'', ''--version'']"
  by (simp add: driver_command_def spec_command_def str_arg_def)

text \<open>
  C9, as the code has it: the version property makes one synchronous call of \<open>run\<close>, with
  the argument list \<open>["--version"]\<close>, without a solver scope and without a time limit, so
  the executable is started once, with the command line made of its path,
  \<open>--allow-multiple-assignments\<close> and \<open>--version\<close>; when that call ends with return
  code zero, the property returns the decoded stdout, and \<open>UnicodeDecodeError\<close> is the only
  failure of the decoding.
\<close>

theorem minizinc_version_query:
  "run_calls (snd (minizinc_version env self))
     = [sync_call [executable self, ''--allow-multiple-assignments'', ''--version''] None]
   \<and> commands (snd (minizinc_version env self))
     = [[executable self, ''--allow-multiple-assignments'', ''--version'']]
   \<and> \<not> list_ex is_conf_event (snd (minizinc_version env self))
   \<and> (subprocess_run env
         (sync_call [executable self, ''--allow-multiple-assignments'', ''--version''] None)
       = Returns output \<and> returncode output = 0 \<longrightarrow>
         fst (minizinc_version env self)
           = (case decode env (stdout output) of
                None \<Rightarrow> Raises UnicodeDecodeError
              | Some s \<Rightarrow> Returns s))"
proof (intro conjI impI)
  show "run_calls (snd (minizinc_version env self))
          = [sync_call [executable self, ''--allow-multiple-assignments'', ''--version''] None]"
    by (simp add: minizinc_version_trace run_calls_run version_command timeout_seconds_def)
  show "commands (snd (minizinc_version env self))
          = [[executable self, ''--allow-multiple-assignments'', ''--version'']]"
    by (simp add: minizinc_version_trace commands_run version_command)
  show "\<not> list_ex is_conf_event (snd (minizinc_version env self))"
    by (simp add: minizinc_version_trace run_trace)
next
  assume h: "subprocess_run env
               (sync_call [executable self, ''--allow-multiple-assignments'', ''--version''] None)
             = Returns output \<and> returncode output = 0"
  then have "fst (run env self [Str ''--version''] None None) = Returns output"
    by (simp add: run_outcome version_command timeout_seconds_def check_returncode_def)
  then show "fst (minizinc_version env self)
               = (case decode env (stdout output) of
                    None \<Rightarrow> Raises UnicodeDecodeError
                  | Some s \<Rightarrow> Returns s)"
    by (cases "run env self [Str ''--version''] None None")
       (simp add: minizinc_version_def split: option.splits)
qed

theorem minizinc_version_query_witness:
  "fst (minizinc_version
          (sample_env (Some 1)
             \<lparr>returncode = 0, stdout = ''MiniZinc to FlatZinc converter, version 2.6.1'',
              stderr = []\<rparr>)
          sample_driver)
     = Returns ''MiniZinc to FlatZinc converter, version 2.6.1''"
proof -
  have a: "subprocess_run
             (sample_env (Some 1)
                \<lparr>returncode = 0, stdout = ''MiniZinc to FlatZinc converter, version 2.6.1'',
                 stderr = []\<rparr>)
             (sync_call [executable sample_driver, ''--allow-multiple-assignments'',
                         ''--version''] None)
           = Returns \<lparr>returncode = 0,
                      stdout = ''MiniZinc to FlatZinc converter, version 2.6.1'', stderr = []\<rparr>
           \<and> returncode \<lparr>returncode = 0,
                      stdout = ''MiniZinc to FlatZinc converter, version 2.6.1'', stderr = []\<rparr>
             = 0"
    by (simp add: sample_env_def sync_call_def)
  from minizinc_version_query
         [THEN conjunct2, THEN conjunct2, THEN conjunct2, THEN mp, OF a]
  show ?thesis
    by (simp add: sample_env_def)
qed

text \<open>
  C9 as stated (the executable invoked with the single argument \<open>--version\<close>) fails:
  the executable receives two arguments, \<open>--allow-multiple-assignments\<close> before
  \<open>--version\<close>.
\<close>

theorem version_query_arguments:
  "map tl (commands (snd (minizinc_version
             (sample_env (Some 1) \<lparr>returncode = 0, stdout = ''version 2.6.1'', stderr = []\<rparr>)
             sample_driver)))
     = [[''--allow-multiple-assignments'', ''--version'']]
   \<and> map tl (commands (snd (minizinc_version
             (sample_env (Some 1) \<lparr>returncode = 0, stdout = ''version 2.6.1'', stderr = []\<rparr>)
             sample_driver)))
     \<noteq> [[''--version'']]"
  by (simp add: minizinc_version_trace commands_run version_command)

subsection \<open>The configuration scope\<close>

lemma run_blocks_iff:
  "fst (run env self args solver_opt timeout) = Blocks \<longleftrightarrow>
     subprocess_run env
       (sync_call (driver_command env self args solver_opt) (timeout_seconds timeout)) = Blocks"
  by (simp add: run_outcome check_returncode_def split: outcome.splits)

lemma token_in_command:
  "configuration s \<in> set (driver_command env self args (Some s))"
  "configuration s \<in> set (tl (driver_command env self args (Some s)))"
  by (simp_all add: driver_command_def spec_command_def)

text \<open>
  C5, as the code has it: whenever a solver is supplied to \<open>run\<close> or \<open>create_process\<close>,
  the configuration scope is entered first, the process primitive is then called once with
  a command line that carries the token, and on every path on which that call returns or
  raises (a failed spawn and a timeout included) the scope is left exactly once, after the
  call; it is never left before the primitive is called. While the primitive blocks, the
  scope stays open.
\<close>

theorem configuration_scope:
  "(fst (run env self args (Some s) timeout) \<noteq> Blocks \<longrightarrow>
      phase_after s Outside (snd (run env self args (Some s) timeout)) = Some Released)
   \<and> (fst (run env self args (Some s) timeout) = Blocks \<longrightarrow>
      phase_after s Outside (snd (run env self args (Some s) timeout)) = Some Invoked)
   \<and> (fst (create_process env self args (Some s)) \<noteq> Blocks \<longrightarrow>
      phase_after s Outside (snd (create_process env self args (Some s))) = Some Released)
   \<and> (fst (create_process env self args (Some s)) = Blocks \<longrightarrow>
      phase_after s Outside (snd (create_process env self args (Some s))) = Some Invoked)
   \<and> \<not> released_before_invocation (snd (run env self args (Some s) timeout))
   \<and> \<not> released_before_invocation (snd (create_process env self args (Some s)))"
proof (intro conjI impI)
  show "phase_after s Outside (snd (run env self args (Some s) timeout)) = Some Released"
    if "fst (run env self args (Some s) timeout) \<noteq> Blocks"
    using that by (simp add: run_blocks_iff run_trace sync_call_def token_in_command)
  show "phase_after s Outside (snd (run env self args (Some s) timeout)) = Some Invoked"
    if "fst (run env self args (Some s) timeout) = Blocks"
    using that by (simp add: run_blocks_iff run_trace sync_call_def token_in_command)
  show "phase_after s Outside (snd (create_process env self args (Some s))) = Some Released"
    if "fst (create_process env self args (Some s)) \<noteq> Blocks"
    using that
    by (simp add: create_process_outcome create_process_trace async_call_def token_in_command)
  show "phase_after s Outside (snd (create_process env self args (Some s))) = Some Invoked"
    if "fst (create_process env self args (Some s)) = Blocks"
    using that
    by (simp add: create_process_outcome create_process_trace async_call_def token_in_command)
  show "\<not> released_before_invocation (snd (run env self args (Some s) timeout))"
    by (simp add: released_before_invocation_def run_trace)
  show "\<not> released_before_invocation (snd (create_process env self args (Some s)))"
    by (simp add: released_before_invocation_def create_process_trace)
qed

theorem configuration_scope_witness:
  "phase_after (Solver ''gecode.msc'') Outside
     (snd (run (sample_env (Some 9) \<lparr>returncode = 0, stdout = [], stderr = []\<rparr>)
               sample_driver [Str ''model.mzn''] (Some (Solver ''gecode.msc''))
               (Some (Timedelta 5))))
     = Some Released
   \<and> fst (run (sample_env (Some 9) \<lparr>returncode = 0, stdout = [], stderr = []\<rparr>)
               sample_driver [Str ''model.mzn''] (Some (Solver ''gecode.msc''))
               (Some (Timedelta 5)))
     = Raises (TimeoutExpired
                 [''/usr/bin/minizinc'', ''--solver'', ''gecode.msc'',
                  ''--allow-multiple-assignments'', ''model.mzn''] 5)"
proof -
  have a: "fst (run (sample_env (Some 9) \<lparr>returncode = 0, stdout = [], stderr = []\<rparr>)
               sample_driver [Str ''model.mzn''] (Some (Solver ''gecode.msc''))
               (Some (Timedelta 5)))
     = Raises (TimeoutExpired
                 [''/usr/bin/minizinc'', ''--solver'', ''gecode.msc'',
                  ''--allow-multiple-assignments'', ''model.mzn''] 5)"
    by (simp add: run_def Let_def sample_env_def sample_driver_def str_arg_def)
  then have b: "fst (run (sample_env (Some 9) \<lparr>returncode = 0, stdout = [], stderr = []\<rparr>)
               sample_driver [Str ''model.mzn''] (Some (Solver ''gecode.msc''))
               (Some (Timedelta 5))) \<noteq> Blocks"
    by simp
  from configuration_scope [THEN conjunct1, THEN mp, OF b] a show ?thesis
    by simp
qed

text \<open>
  C5 as stated (the token released as soon as the argument list is built, before the
  process exits) fails: in a synchronous run with a solver whose process exits with
  code 0, the scope is left as the last event, after the call of \<open>subprocess.run\<close> that
  waited for the process.
\<close>

theorem release_after_process_exit:
  "fst (run (sample_env (Some 1) \<lparr>returncode = 0, stdout = [], stderr = []\<rparr>)
            sample_driver [Str ''model.mzn''] (Some (Solver ''gecode.msc'')) None)
     = Returns \<lparr>returncode = 0, stdout = [], stderr = []\<rparr>
   \<and> map is_invocation
         (snd (run (sample_env (Some 1) \<lparr>returncode = 0, stdout = [], stderr = []\<rparr>)
                   sample_driver [Str ''model.mzn''] (Some (Solver ''gecode.msc'')) None))
     = [False, False, True, False]
   \<and> map is_release
         (snd (run (sample_env (Some 1) \<lparr>returncode = 0, stdout = [], stderr = []\<rparr>)
                   sample_driver [Str ''model.mzn''] (Some (Solver ''gecode.msc'')) None))
     = [False, False, False, True]
   \<and> \<not> released_before_invocation
         (snd (run (sample_env (Some 1) \<lparr>returncode = 0, stdout = [], stderr = []\<rparr>)
                   sample_driver [Str ''model.mzn''] (Some (Solver ''gecode.msc'')) None))"
  by (simp add: run_def Let_def sample_env_def sample_driver_def check_returncode_def
        released_before_invocation_def)

subsection \<open>The version check\<close>

lemma strip_prefix_iff: "strip_prefix p s = Some r \<longleftrightarrow> s = p @ r"
  by (induction p s rule: strip_prefix.induct) auto

lemma not_digit_dot: "\<not> is_digit CHR ''.''"
  by (simp add: is_digit_def)

lemma dot_iff: "dot s = Some r \<longleftrightarrow> s = CHR ''.'' # r"
  by (auto simp add: dot_def split: list.splits)

lemma digits1_sound:
  "digits1 s = Some (d, r) \<Longrightarrow> s = d @ r \<and> digit_run d"
  by (auto simp add: digits1_def digit_run_def Let_def list_all_iff split: if_splits
        dest: set_takeWhileD)

lemma digits1_before_dot:
  "digit_run d \<Longrightarrow> digits1 (d @ CHR ''.'' # r) = Some (d, CHR ''.'' # r)"
  by (simp add: digits1_def digit_run_def Let_def list_all_iff not_digit_dot
        takeWhile_append dropWhile_append takeWhile_eq_all_conv[THEN iffD2])

lemma digits1_last:
  "digit_run d \<Longrightarrow> \<exists>d' r'. digits1 (d @ r) = Some (d', r')"
  by (cases d) (auto simp add: digits1_def digit_run_def Let_def)

lemma match_version_sound:
  assumes "match_version s = Some (g1, g2, g3)"
  shows "digit_run g1 \<and> digit_run g2 \<and> digit_run g3
         \<and> (\<exists>post. s = ''version '' @ g1 @ ''.'' @ g2 @ ''.'' @ g3 @ post)"
  using assms
  by (auto simp add: match_version_def strip_prefix_iff dot_iff
        split: option.splits prod.splits dest!: digits1_sound)

lemma match_version_complete:
  assumes "digit_run g1" "digit_run g2" "digit_run g3"
  shows "match_version (''version '' @ g1 @ ''.'' @ g2 @ ''.'' @ g3 @ post) \<noteq> None"
proof -
  have p: "strip_prefix ''version '' (''version '' @ g1 @ ''.'' @ g2 @ ''.'' @ g3 @ post)
             = Some (g1 @ ''.'' @ g2 @ ''.'' @ g3 @ post)"
    by (simp only: strip_prefix_iff)
  obtain d' r' where l: "digits1 (g3 @ post) = Some (d', r')"
    using digits1_last [OF assms(3)] by blast
  show ?thesis
    unfolding match_version_def p
    using digits1_before_dot [OF assms(1)] digits1_before_dot [OF assms(2)] l
    by (simp add: dot_def)
qed

lemma search_sound:
  "re_search_version s = Some g \<Longrightarrow> \<exists>pre rest. s = pre @ rest \<and> match_version rest = Some g"
proof (induction s)
  case Nil
  then show ?case by simp
next
  case (Cons c cs)
  show ?case
  proof (cases "match_version (c # cs)")
    case None
    with Cons obtain pre rest where "cs = pre @ rest" "match_version rest = Some g"
      by auto
    then have "c # cs = (c # pre) @ rest \<and> match_version rest = Some g" by simp
    then show ?thesis by blast
  next
    case (Some a)
    with Cons.prems have "c # cs = [] @ (c # cs) \<and> match_version (c # cs) = Some g" by simp
    then show ?thesis by blast
  qed
qed

lemma search_complete:
  "match_version rest \<noteq> None \<Longrightarrow> re_search_version (pre @ rest) \<noteq> None"
proof (induction pre)
  case Nil
  then show ?case by (cases rest) auto
next
  case (Cons c pre)
  then show ?case by (auto split: option.splits)
qed

lemma search_iff_contains: "re_search_version s \<noteq> None \<longleftrightarrow> contains_version s"
proof
  assume "re_search_version s \<noteq> None"
  then obtain g1 g2 g3 where "re_search_version s = Some (g1, g2, g3)" by auto
  then obtain pre rest where s: "s = pre @ rest" and m: "match_version rest = Some (g1, g2, g3)"
    using search_sound by blast
  from match_version_sound [OF m] s show "contains_version s"
    unfolding contains_version_def by blast
next
  assume "contains_version s"
  then obtain pre g1 g2 g3 post where
    s: "s = pre @ ''version '' @ g1 @ ''.'' @ g2 @ ''.'' @ g3 @ post"
    and d: "digit_run g1" "digit_run g2" "digit_run g3"
    unfolding contains_version_def by blast
  from match_version_complete [OF d] show "re_search_version s \<noteq> None"
    unfolding s by (rule search_complete)
qed



lemma check_version_outcome:
  assumes "subprocess_run env
             (sync_call [executable self, ''--allow-multiple-assignments'', ''--version''] None)
           = Returns output"
    and "returncode output = 0"
  shows "fst (check_version env self) =
           (case re_search_version (stdout output) of
              None \<Rightarrow> Raises AttributeError
            | Some (g1, g2, g3) \<Rightarrow>
                if tuple_less [int_of_digits g1, int_of_digits g2, int_of_digits g3]
                     (required_version env)
                then Raises (ConfigurationError
                       (version_message (executable self)
                          [int_of_digits g1, int_of_digits g2, int_of_digits g3]
                          (required_version env)))
                else Returns ())"
proof -
  have "fst (run env self [Str ''--version''] None None) = Returns output"
    using assms
    by (simp add: run_outcome version_command timeout_seconds_def check_returncode_def)
  then show ?thesis
    by (cases "run env self [Str ''--version''] None None")
       (simp add: check_version_def Let_def split: option.splits prod.splits)
qed



text \<open>
  C6: for every stdout of the \<open>--version\<close> call (ended with return code zero) that holds
  no substring matching the pattern \<open>version (\d+)\.(\d+)\.(\d+)\<close>, \<open>check_version\<close>
  fails with the pattern-mismatch error, the \<open>AttributeError\<close> of the access to the groups
  of a missing match: it neither returns nor raises \<open>ConfigurationError\<close>; and whenever
  stdout does hold such a substring, that failure does not occur.
\<close>

theorem check_version_mismatch:
  assumes "subprocess_run env
             (sync_call [executable self, ''--allow-multiple-assignments'', ''--version''] None)
           = Returns output"
    and "returncode output = 0"
  shows "(\<not> contains_version (stdout output) \<longrightarrow>
            fst (check_version env self) = Raises AttributeError
            \<and> fst (check_version env self) \<noteq> Returns ()
            \<and> (\<forall>msg. fst (check_version env self) \<noteq> Raises (ConfigurationError msg)))
         \<and> (contains_version (stdout output) \<longrightarrow>
              fst (check_version env self) \<noteq> Raises AttributeError)"
proof -
  have miss: "fst (check_version env self) = Raises AttributeError"
    if "\<not> contains_version (stdout output)"
  proof -
    from that have "re_search_version (stdout output) = None"
      using search_iff_contains by blast
    then show ?thesis
      using check_version_outcome [OF assms] by simp
  qed
  have hit: "fst (check_version env self) \<noteq> Raises AttributeError"
    if "contains_version (stdout output)"
  proof -
    from that obtain g where "re_search_version (stdout output) = Some g"
      using search_iff_contains by blast
    then show ?thesis
      using check_version_outcome [OF assms] by (simp split: prod.splits)
  qed
  from miss hit show ?thesis
    by auto
qed

theorem check_version_mismatch_witness:
  "fst (check_version
          (sample_env (Some 1) \<lparr>returncode = 0, stdout = ''minizinc 2.6.1'', stderr = []\<rparr>)
          sample_driver)
     = Raises AttributeError"
proof -
  have n: "re_search_version ''minizinc 2.6.1'' = None"
    by code_simp
  have c: "\<not> contains_version
               (stdout \<lparr>returncode = 0, stdout = ''minizinc 2.6.1'', stderr = []\<rparr>)"
    using search_iff_contains [of "''minizinc 2.6.1''"] n by simp
  have a: "subprocess_run
             (sample_env (Some 1) \<lparr>returncode = 0, stdout = ''minizinc 2.6.1'', stderr = []\<rparr>)
             (sync_call [executable sample_driver, ''--allow-multiple-assignments'',
                         ''--version''] None)
           = Returns \<lparr>returncode = 0, stdout = ''minizinc 2.6.1'', stderr = []\<rparr>"
    by (simp add: sample_env_def sync_call_def)
  have b: "returncode \<lparr>returncode = 0, stdout = ''minizinc 2.6.1'', stderr = []\<rparr> = 0"
    by simp
  from check_version_mismatch [OF a b, THEN conjunct1, THEN mp, OF c, THEN conjunct1]
  show ?thesis .
qed

end
